theory Spec2Isabelle
  imports Main "HOL-Library.Sublist"
begin

section \<open>Data model of the Interface header\<close>

text \<open>
  A C++ pointer is either null or refers to an object, named here by a number.
  \<open>Mod*\<close> and \<open>Hook*\<close> refer to objects the header only declares, so only their
  identity is kept.
\<close>

datatype 'a ptr = nullptr | Ptr 'a

text \<open>\<open>Result<T>\<close> of utils/Result.hpp: \<open>Ok\<close> with a payload or an error with its text.\<close>

datatype 'a Result = Ok 'a | Err string

type_synonym address = nat
type_synonym Severity = int
type_synonym mod_id = nat
type_synonym hook_id = nat

text \<open>
  The member pointer \<open>&Mod::addHook<Detour, Convention>\<close> stored in a ScheduledHook.
  Each instantiation of the template is a different member function; it is identified by
  its two template arguments.
\<close>

datatype addFunction_t = Mod_addHook_ptr (detour_of: nat) (convention_of: nat)

record ScheduledHook =
  m_displayName :: string
  m_address :: address
  m_addFunction :: addFunction_t

record ScheduledLog =
  m_info :: string
  m_severity :: Severity

text \<open>\<open>std::variant<unknownmemfn_t, unknownfn_t>\<close>: the two erased pointer types.\<close>

datatype export_func = unknownmemfn nat | unknownfn nat

record ScheduledExport =
  m_selector :: string
  m_func :: export_func

text \<open>\<open>loadfn_t = void(*)(Mod*)\<close>: a function pointer, kept as the function's address.\<close>

type_synonym loadfn_t = nat

record Interface =
  m_mod :: "mod_id ptr"
  m_scheduledHooks :: "ScheduledHook list"
  m_scheduledLogs :: "ScheduledLog list"
  m_scheduledExports :: "ScheduledExport list"
  m_scheduledFunctions :: "loadfn_t list"

text \<open>
  The default member initialisers: \<open>Mod* m_mod = nullptr\<close> and four empty vectors.
\<close>

definition Interface_default :: Interface where
  "Interface_default =
     \<lparr>m_mod = nullptr, m_scheduledHooks = [], m_scheduledLogs = [],
      m_scheduledExports = [], m_scheduledFunctions = []\<rparr>"

section \<open>The Mod as seen from the Interface\<close>

text \<open>
  Mod.hpp is not part of the sources. Every effect the Interface has on the outside is a
  call on the attached Mod (or of a load callback with it), so the outside is a history
  of such calls, oldest first. The Interface together with that history is the state all
  member functions below pass along.
\<close>

datatype Mod_call =
    AddHookCall mod_id nat nat string address
  | LogInfoCall mod_id string Severity
  | ExportCall mod_id string export_func
  | LoadCall loadfn_t mod_id

type_synonym state = "Interface \<times> Mod_call list"

text \<open>
  What \<open>Mod::addHook<Detour, Convention>(displayName, address)\<close> returns is decided by
  the hook framework behind the Mod. It is a parameter of the model: a function of the
  history so far and of the call's arguments.
\<close>

type_synonym hook_backend =
  "Mod_call list \<Rightarrow> mod_id \<Rightarrow> nat \<Rightarrow> nat \<Rightarrow> string \<Rightarrow> address \<Rightarrow> hook_id ptr Result"

definition Mod_addHook ::
  "hook_backend \<Rightarrow> mod_id \<Rightarrow> nat \<Rightarrow> nat \<Rightarrow> string \<Rightarrow> address \<Rightarrow> Mod_call list
    \<Rightarrow> hook_id ptr Result \<times> Mod_call list" where
  "Mod_addHook install m detour convention displayName addr t =
     (install t m detour convention displayName addr,
      t @ [AddHookCall m detour convention displayName addr])"

section \<open>Interface::addHook\<close>

text \<open>
  The two-argument overload (lines 116 to 123): with a Mod attached it returns what the
  Mod's own addHook returns; otherwise it pushes a ScheduledHook and returns
  \<open>Ok<Hook*>(nullptr)\<close>.
\<close>

fun addHook ::
  "hook_backend \<Rightarrow> nat \<Rightarrow> nat \<Rightarrow> string \<Rightarrow> address \<Rightarrow> state \<Rightarrow> hook_id ptr Result \<times> state" where
  "addHook install detour convention displayName addr (this, t) =
     (case m_mod this of
        Ptr m \<Rightarrow>
          (case Mod_addHook install m detour convention displayName addr t of
             (r, t') \<Rightarrow> (r, (this, t')))
      | nullptr \<Rightarrow>
          (Ok nullptr,
           (this\<lparr>m_scheduledHooks := m_scheduledHooks this @
               [\<lparr>m_displayName = displayName, m_address = addr,
                 m_addFunction = Mod_addHook_ptr detour convention\<rparr>]\<rparr>,
            t)))"

text \<open>The one-argument overload (lines 105 to 108) passes the empty string.\<close>

definition addHook_address ::
  "hook_backend \<Rightarrow> nat \<Rightarrow> nat \<Rightarrow> address \<Rightarrow> state \<Rightarrow> hook_id ptr Result \<times> state" where
  "addHook_address install detour convention addr s =
     addHook install detour convention '''' addr s"

section \<open>Interface::exportAPIFunction\<close>

text \<open>
  The argument \<open>T ptr\<close> of the template: a pointer to a member function or a pointer
  to a free function, each with the value it holds.
\<close>

datatype api_ptr = MemberFunctionPointer nat | FunctionPointer nat

fun is_member_function_pointer :: "api_ptr \<Rightarrow> bool" where
  "is_member_function_pointer (MemberFunctionPointer p) = True"
| "is_member_function_pointer (FunctionPointer p) = False"

text \<open>
  \<open>cast::reference_cast<unknownmemfn_t>\<close> and \<open>reinterpret_cast<unknownfn_t>\<close>
  change the static type and keep the value.
\<close>

fun pointer_value :: "api_ptr \<Rightarrow> nat" where
  "pointer_value (MemberFunctionPointer p) = p"
| "pointer_value (FunctionPointer p) = p"

text \<open>
  Modelled from the spec: the two overloads of Interface::exportAPIFunctionInternal
  (declared at lines 138 and 139; their bodies are not among the sources). The spec says of
  exportAPIFunction that it "either forwards immediately (attached) or buffers as
  ScheduledExport (not attached)", and of the export that (selector, function) goes to the
  Mod's export table.
\<close>

fun exportAPIFunctionInternal_memfn :: "string \<Rightarrow> nat \<Rightarrow> state \<Rightarrow> state" where
  "exportAPIFunctionInternal_memfn selector fn (this, t) =
     (case m_mod this of
        Ptr m \<Rightarrow> (this, t @ [ExportCall m selector (unknownmemfn fn)])
      | nullptr \<Rightarrow>
          (this\<lparr>m_scheduledExports := m_scheduledExports this @
              [\<lparr>m_selector = selector, m_func = unknownmemfn fn\<rparr>]\<rparr>, t))"

fun exportAPIFunctionInternal_fn :: "string \<Rightarrow> nat \<Rightarrow> state \<Rightarrow> state" where
  "exportAPIFunctionInternal_fn selector fn (this, t) =
     (case m_mod this of
        Ptr m \<Rightarrow> (this, t @ [ExportCall m selector (unknownfn fn)])
      | nullptr \<Rightarrow>
          (this\<lparr>m_scheduledExports := m_scheduledExports this @
              [\<lparr>m_selector = selector, m_func = unknownfn fn\<rparr>]\<rparr>, t))"

text \<open>The template itself (lines 142 to 150): the \<open>if constexpr\<close> on the pointer's kind.\<close>

definition exportAPIFunction :: "string \<Rightarrow> api_ptr \<Rightarrow> state \<Rightarrow> state" where
  "exportAPIFunction selector p s =
     (if is_member_function_pointer p
      then exportAPIFunctionInternal_memfn selector (pointer_value p) s
      else exportAPIFunctionInternal_fn selector (pointer_value p) s)"

section \<open>Interface::logInfo and Interface::scheduleOnLoad\<close>

text \<open>
  Modelled from the spec: Interface::logInfo (declared at line 133; its body is not among
  the sources). The spec: "if attached, forwards immediately; else buffers as
  ScheduledLog."
\<close>

fun logInfo :: "string \<Rightarrow> Severity \<Rightarrow> state \<Rightarrow> state" where
  "logInfo info severity (this, t) =
     (case m_mod this of
        Ptr m \<Rightarrow> (this, t @ [LogInfoCall m info severity])
      | nullptr \<Rightarrow>
          (this\<lparr>m_scheduledLogs := m_scheduledLogs this @
              [\<lparr>m_info = info, m_severity = severity\<rparr>]\<rparr>, t))"

text \<open>
  Modelled from the spec: Interface::scheduleOnLoad (declared at line 135; its body is not
  among the sources). The spec: it "always buffers fn", and, for a call made when a Mod is
  already attached, "it must still be queued and only executed at the next attach event,
  or, if none is pending, implementations should choose and document
  immediate-invoke-if-already-attached as the simpler, recommended semantics". Without a
  Mod the callback is buffered. With a Mod the spec leaves the two behaviours open, so the
  choice is a parameter of the model. The spec recommends the second; the first needs a
  later attach to run the callback, and the spec has the loader call init once.
\<close>

datatype onLoad_policy = QueueForNextAttach | InvokeIfAttached

fun scheduleOnLoad :: "onLoad_policy \<Rightarrow> loadfn_t \<Rightarrow> state \<Rightarrow> state" where
  "scheduleOnLoad policy fn (this, t) =
     (case m_mod this of
        Ptr m \<Rightarrow>
          (case policy of
             InvokeIfAttached \<Rightarrow> (this, t @ [LoadCall fn m])
           | QueueForNextAttach \<Rightarrow>
               (this\<lparr>m_scheduledFunctions := m_scheduledFunctions this @ [fn]\<rparr>, t))
      | nullptr \<Rightarrow>
          (this\<lparr>m_scheduledFunctions := m_scheduledFunctions this @ [fn]\<rparr>, t))"

section \<open>Interface::init\<close>

text \<open>
  Calling a stored member pointer on a Mod, as \<open>(mod->*m_addFunction)(name, address)\<close>.
\<close>

fun invoke_addFunction ::
  "hook_backend \<Rightarrow> addFunction_t \<Rightarrow> mod_id \<Rightarrow> string \<Rightarrow> address \<Rightarrow> Mod_call list
    \<Rightarrow> hook_id ptr Result \<times> Mod_call list" where
  "invoke_addFunction install (Mod_addHook_ptr detour convention) m displayName addr t =
     Mod_addHook install m detour convention displayName addr t"

text \<open>
  Modelled from the spec: the four replay loops of Interface::init. Each walks one buffer
  from its first entry to its last. The Result of a replayed install is dropped and the
  loop goes on, as the spec requires ("hook installation failures during flush must still
  allow the remaining queued entries to be processed").
\<close>

fun replayHooks ::
  "hook_backend \<Rightarrow> mod_id \<Rightarrow> ScheduledHook list \<Rightarrow> Mod_call list \<Rightarrow> Mod_call list" where
  "replayHooks install m [] t = t"
| "replayHooks install m (h # hs) t =
     replayHooks install m hs
       (snd (invoke_addFunction install (m_addFunction h) m (m_displayName h) (m_address h) t))"

fun replayLogs :: "mod_id \<Rightarrow> ScheduledLog list \<Rightarrow> Mod_call list \<Rightarrow> Mod_call list" where
  "replayLogs m [] t = t"
| "replayLogs m (l # ls) t = replayLogs m ls (t @ [LogInfoCall m (m_info l) (m_severity l)])"

fun replayExports :: "mod_id \<Rightarrow> ScheduledExport list \<Rightarrow> Mod_call list \<Rightarrow> Mod_call list" where
  "replayExports m [] t = t"
| "replayExports m (e # es) t = replayExports m es (t @ [ExportCall m (m_selector e) (m_func e)])"

fun invokeFunctions :: "mod_id \<Rightarrow> loadfn_t list \<Rightarrow> Mod_call list \<Rightarrow> Mod_call list" where
  "invokeFunctions m [] t = t"
| "invokeFunctions m (fn # fns) t = invokeFunctions m fns (t @ [LoadCall fn m])"

text \<open>
  Modelled from the spec: Interface::init (declared at line 89; its body is not among the
  sources). The spec: it "attaches module as the Interface's Module reference, then, in
  order: (1) replays every ScheduledHook ... (2) replays every ScheduledLog ... (3) replays
  every ScheduledExport ... (4) invokes every ScheduledFunction with module. After step 4,
  all four buffers are cleared." A second call on an attached Interface is "undefined by
  contract"; the model gives no state for it (\<open>None\<close>).
\<close>

fun init :: "hook_backend \<Rightarrow> mod_id \<Rightarrow> state \<Rightarrow> state option" where
  "init install module (this, t) =
     (case m_mod this of
        Ptr m \<Rightarrow> None
      | nullptr \<Rightarrow>
          (let t1 = replayHooks install module (m_scheduledHooks this) t;
               t2 = replayLogs module (m_scheduledLogs this) t1;
               t3 = replayExports module (m_scheduledExports this) t2;
               t4 = invokeFunctions module (m_scheduledFunctions this) t3
           in Some (this\<lparr>m_mod := Ptr module, m_scheduledHooks := [], m_scheduledLogs := [],
                      m_scheduledExports := [], m_scheduledFunctions := []\<rparr>, t4)))"

section \<open>Sequences of scheduling calls\<close>

text \<open>
  The calls a client can make on the Interface to schedule something, with their
  arguments, and the Result a call hands back (the three \<open>void\<close> member functions hand
  back none).
\<close>

datatype sched_call =
    AddHook nat nat string address
  | AddHookAddress nat nat address
  | LogInfo string Severity
  | ExportAPIFunction string api_ptr
  | ScheduleOnLoad loadfn_t

fun call_result ::
  "hook_backend \<Rightarrow> onLoad_policy \<Rightarrow> sched_call \<Rightarrow> state \<Rightarrow> hook_id ptr Result option \<times> state" where
  "call_result install policy (AddHook detour convention displayName addr) s =
     (case addHook install detour convention displayName addr s of (r, s') \<Rightarrow> (Some r, s'))"
| "call_result install policy (AddHookAddress detour convention addr) s =
     (case addHook_address install detour convention addr s of (r, s') \<Rightarrow> (Some r, s'))"
| "call_result install policy (LogInfo info severity) s = (None, logInfo info severity s)"
| "call_result install policy (ExportAPIFunction selector p) s =
     (None, exportAPIFunction selector p s)"
| "call_result install policy (ScheduleOnLoad fn) s = (None, scheduleOnLoad policy fn s)"

definition do_call :: "hook_backend \<Rightarrow> onLoad_policy \<Rightarrow> sched_call \<Rightarrow> state \<Rightarrow> state" where
  "do_call install policy c s = snd (call_result install policy c s)"

fun do_calls :: "hook_backend \<Rightarrow> onLoad_policy \<Rightarrow> sched_call list \<Rightarrow> state \<Rightarrow> state" where
  "do_calls install policy [] s = s"
| "do_calls install policy (c # cs) s = do_calls install policy cs (do_call install policy c s)"

text \<open>
  The kind of a scheduling call, and the call on a Mod \<open>m\<close> that a scheduling call asks
  for.
\<close>

fun is_hook :: "sched_call \<Rightarrow> bool" where
  "is_hook (AddHook detour convention displayName addr) = True"
| "is_hook (AddHookAddress detour convention addr) = True"
| "is_hook c = False"

fun is_log :: "sched_call \<Rightarrow> bool" where
  "is_log (LogInfo info severity) = True"
| "is_log c = False"

fun is_export :: "sched_call \<Rightarrow> bool" where
  "is_export (ExportAPIFunction selector p) = True"
| "is_export c = False"

fun is_load :: "sched_call \<Rightarrow> bool" where
  "is_load (ScheduleOnLoad fn) = True"
| "is_load c = False"

fun asked_call :: "mod_id \<Rightarrow> sched_call \<Rightarrow> Mod_call" where
  "asked_call m (AddHook detour convention displayName addr) =
     AddHookCall m detour convention displayName addr"
| "asked_call m (AddHookAddress detour convention addr) =
     AddHookCall m detour convention [] addr"
| "asked_call m (LogInfo info severity) = LogInfoCall m info severity"
| "asked_call m (ExportAPIFunction selector (MemberFunctionPointer p)) =
     ExportCall m selector (unknownmemfn p)"
| "asked_call m (ExportAPIFunction selector (FunctionPointer p)) =
     ExportCall m selector (unknownfn p)"
| "asked_call m (ScheduleOnLoad fn) = LoadCall fn m"

section \<open>The process-wide instance: get, mod, log\<close>

text \<open>
  The part of the process these functions touch: the function-local static \<open>ret\<close> of
  \<open>Interface::get()\<close> (\<open>None\<close> until its initialiser has run) and the Interface
  objects constructed so far; the pointer \<open>Ptr k\<close> refers to the object at position \<open>k\<close>.
\<close>

record process =
  ret :: "nat ptr option"
  objects :: "Interface list"

text \<open>
  Modelled from the spec: Interface::create (declared at line 43; its body is not among the
  sources). The spec has \<open>get()\<close> return the instance, "creating it on first call", and
  never null: the model constructs one more Interface, with its default member
  initialisers, and returns the pointer to it.
\<close>

definition create :: "process \<Rightarrow> nat ptr \<times> process" where
  "create p = (Ptr (length (objects p)), p\<lparr>objects := objects p @ [Interface_default]\<rparr>)"

text \<open>
  \<open>Interface::get()\<close> (lines 74 to 77): \<open>static Interface* ret = create(); return ret;\<close>.
  The initialiser of a function-local static runs on the first call only.
\<close>

definition Interface_get :: "process \<Rightarrow> nat ptr \<times> process" where
  "Interface_get p =
     (case ret p of
        Some r \<Rightarrow> (r, p)
      | None \<Rightarrow> (case create p of (r, p') \<Rightarrow> (r, p'\<lparr>ret := Some r\<rparr>)))"

text \<open>
  Going through a pointer. C++ leaves the use of a null pointer undefined; the model
  makes it a fault value, so that each \<open>->\<close> of the source is a branch.
\<close>

datatype fault = NullDereference | InvalidPointer

fun deref :: "process \<Rightarrow> nat ptr \<Rightarrow> fault + Interface" where
  "deref p nullptr = Inl NullDereference"
| "deref p (Ptr k) = (if k < length (objects p) then Inr (objects p ! k) else Inl InvalidPointer)"

text \<open>
  \<open>m_mod->log()\<close>: the Log of a Mod. Log.hpp and Mod.hpp are not among the sources, so a
  Log is kept as the Mod it belongs to.
\<close>

datatype Log = Log_of mod_id

fun Mod_log :: "mod_id ptr \<Rightarrow> fault + Log" where
  "Mod_log nullptr = Inl NullDereference"
| "Mod_log (Ptr m) = Inr (Log_of m)"

text \<open>\<open>Interface::mod()\<close> (lines 79 to 82): \<open>Interface::get()->m_mod\<close>.\<close>

definition Interface_mod :: "process \<Rightarrow> (fault + mod_id ptr) \<times> process" where
  "Interface_mod p =
     (case Interface_get p of (r, p') \<Rightarrow>
        (case deref p' r of Inl f \<Rightarrow> (Inl f, p') | Inr this \<Rightarrow> (Inr (m_mod this), p')))"

text \<open>\<open>Interface::log()\<close> (lines 84 to 87): \<open>Interface::get()->m_mod->log()\<close>.\<close>

definition Interface_log :: "process \<Rightarrow> (fault + Log) \<times> process" where
  "Interface_log p =
     (case Interface_get p of (r, p') \<Rightarrow>
        (case deref p' r of Inl f \<Rightarrow> (Inl f, p') | Inr this \<Rightarrow> (Mod_log (m_mod this), p')))"

text \<open>\<open>Mod::get<void>()\<close> (lines 155 to 158): \<open>Interface::get()->m_mod\<close>.\<close>

definition Mod_get :: "process \<Rightarrow> (fault + mod_id ptr) \<times> process" where
  "Mod_get p =
     (case Interface_get p of (r, p') \<Rightarrow>
        (case deref p' r of Inl f \<Rightarrow> (Inl f, p') | Inr this \<Rightarrow> (Inr (m_mod this), p')))"

text \<open>\<open>Log::get()\<close> (lines 160 to 162): \<open>Mod::get()->log()\<close>.\<close>

definition Log_get :: "process \<Rightarrow> (fault + Log) \<times> process" where
  "Log_get p =
     (case Mod_get p of
        (Inl f, p') \<Rightarrow> (Inl f, p')
      | (Inr m, p') \<Rightarrow> (Mod_log m, p'))"

text \<open>\<open>n\<close> calls of \<open>Interface::get()\<close> one after the other, with what each returned.\<close>

fun get_times :: "nat \<Rightarrow> process \<Rightarrow> nat ptr list \<times> process" where
  "get_times 0 p = ([], p)"
| "get_times (Suc n) p =
     (case Interface_get p of (r, p') \<Rightarrow> (case get_times n p' of (rs, p'') \<Rightarrow> (r # rs, p'')))"

section \<open>Notions used to state the properties\<close>

text \<open>
  The entry a scheduling call leaves in each buffer of an Interface without a Mod (none
  in the buffers of the other kinds), and the Interface after a sequence of such calls.
\<close>

fun hook_entries :: "sched_call \<Rightarrow> ScheduledHook list" where
  "hook_entries (AddHook detour convention displayName addr) =
     [\<lparr>m_displayName = displayName, m_address = addr,
       m_addFunction = Mod_addHook_ptr detour convention\<rparr>]"
| "hook_entries (AddHookAddress detour convention addr) =
     [\<lparr>m_displayName = [], m_address = addr,
       m_addFunction = Mod_addHook_ptr detour convention\<rparr>]"
| "hook_entries c = []"

fun log_entries :: "sched_call \<Rightarrow> ScheduledLog list" where
  "log_entries (LogInfo info severity) = [\<lparr>m_info = info, m_severity = severity\<rparr>]"
| "log_entries c = []"

fun export_entries :: "sched_call \<Rightarrow> ScheduledExport list" where
  "export_entries (ExportAPIFunction selector (MemberFunctionPointer p)) =
     [\<lparr>m_selector = selector, m_func = unknownmemfn p\<rparr>]"
| "export_entries (ExportAPIFunction selector (FunctionPointer p)) =
     [\<lparr>m_selector = selector, m_func = unknownfn p\<rparr>]"
| "export_entries c = []"

fun function_entries :: "sched_call \<Rightarrow> loadfn_t list" where
  "function_entries (ScheduleOnLoad fn) = [fn]"
| "function_entries c = []"

definition buffer_calls :: "sched_call list \<Rightarrow> Interface \<Rightarrow> Interface" where
  "buffer_calls cs this =
     this\<lparr>m_scheduledHooks := m_scheduledHooks this @ concat (map hook_entries cs),
          m_scheduledLogs := m_scheduledLogs this @ concat (map log_entries cs),
          m_scheduledExports := m_scheduledExports this @ concat (map export_entries cs),
          m_scheduledFunctions := m_scheduledFunctions this @ concat (map function_entries cs)\<rparr>"

text \<open>
  The callbacks that a sequence of scheduling calls leaves in the callback buffer of an
  Interface with a Mod: none when scheduleOnLoad invokes at once, those of its
  scheduleOnLoad calls when it queues.
\<close>

fun queued_when_attached :: "onLoad_policy \<Rightarrow> sched_call list \<Rightarrow> loadfn_t list" where
  "queued_when_attached InvokeIfAttached cs = []"
| "queued_when_attached QueueForNextAttach cs = concat (map function_entries cs)"

text \<open>
  A hook framework to run the model on: one that refuses every install.
\<close>

definition install_refused :: hook_backend where
  "install_refused t m detour convention displayName addr = Err ''already hooked''"

section \<open>Lemmas on buffering and replay\<close>

lemma buffer_calls_mod [simp]: "m_mod (buffer_calls cs this) = m_mod this"
  by (simp add: buffer_calls_def)

lemma buffer_calls_Nil [simp]: "buffer_calls [] this = this"
  by (simp add: buffer_calls_def)

lemma buffer_calls_Cons: "buffer_calls cs (buffer_calls [c] this) = buffer_calls (c # cs) this"
  by (simp add: buffer_calls_def)

lemma do_call_unattached:
  "m_mod this = nullptr \<Longrightarrow> do_call install policy c (this, t) = (buffer_calls [c] this, t)"
  by (cases c rule: export_entries.cases)
     (simp_all add: do_call_def buffer_calls_def addHook_address_def exportAPIFunction_def)

lemma do_calls_unattached:
  "m_mod this = nullptr \<Longrightarrow>
   do_calls install policy cs (this, t) = (buffer_calls cs this, t)"
proof (induction cs arbitrary: this)
  case Nil
  then show ?case by simp
next
  case (Cons c cs)
  then show ?case
    by (simp add: do_call_unattached buffer_calls_Cons)
qed

lemma do_call_attached:
  "m_mod this = Ptr m \<Longrightarrow>
   fst (do_call install policy c (this, t)) =
     this\<lparr>m_scheduledFunctions := m_scheduledFunctions this @ queued_when_attached policy [c]\<rparr>"
  by (cases c rule: export_entries.cases; cases policy)
     (simp_all add: do_call_def addHook_address_def exportAPIFunction_def Mod_addHook_def)

lemma queued_when_attached_Cons:
  "queued_when_attached policy [c] @ queued_when_attached policy cs =
     queued_when_attached policy (c # cs)"
  by (cases policy) simp_all

lemma do_calls_attached:
  "m_mod this = Ptr m \<Longrightarrow>
   fst (do_calls install policy cs (this, t)) =
     this\<lparr>m_scheduledFunctions := m_scheduledFunctions this @ queued_when_attached policy cs\<rparr>"
proof (induction cs arbitrary: this t)
  case Nil
  then show ?case by (cases policy) simp_all
next
  case (Cons c cs)
  obtain this' t' where s': "do_call install policy c (this, t) = (this', t')"
    by (cases "do_call install policy c (this, t)")
  with do_call_attached [OF Cons.prems, of install policy c t]
  have this': "this' =
      this\<lparr>m_scheduledFunctions := m_scheduledFunctions this @ queued_when_attached policy [c]\<rparr>"
    by simp
  with Cons.prems have "m_mod this' = Ptr m" by simp
  from Cons.IH [OF this, of t'] s' this' show ?case
    by (simp add: queued_when_attached_Cons)
qed

lemma replayHooks_calls:
  "replayHooks install m hs t =
     t @ map (\<lambda>h. AddHookCall m (detour_of (m_addFunction h)) (convention_of (m_addFunction h))
                     (m_displayName h) (m_address h)) hs"
proof (induction hs arbitrary: t)
  case Nil
  then show ?case by simp
next
  case (Cons h hs)
  show ?case
    by (cases "m_addFunction h") (simp add: Cons.IH Mod_addHook_def)
qed

lemma replayLogs_calls:
  "replayLogs m ls t = t @ map (\<lambda>l. LogInfoCall m (m_info l) (m_severity l)) ls"
  by (induction ls arbitrary: t) simp_all

lemma replayExports_calls:
  "replayExports m es t = t @ map (\<lambda>e. ExportCall m (m_selector e) (m_func e)) es"
  by (induction es arbitrary: t) simp_all

lemma invokeFunctions_calls:
  "invokeFunctions m fns t = t @ map (\<lambda>fn. LoadCall fn m) fns"
  by (induction fns arbitrary: t) simp_all

lemma hook_entries_asked:
  "map (\<lambda>h. AddHookCall m (detour_of (m_addFunction h)) (convention_of (m_addFunction h))
                     (m_displayName h) (m_address h)) (concat (map hook_entries cs)) =
   map (asked_call m) (filter is_hook cs)"
proof (induction cs)
  case Nil
  then show ?case by simp
next
  case (Cons c cs)
  then show ?case by (cases c rule: hook_entries.cases) simp_all
qed

lemma log_entries_asked:
  "map (\<lambda>l. LogInfoCall m (m_info l) (m_severity l)) (concat (map log_entries cs)) =
   map (asked_call m) (filter is_log cs)"
proof (induction cs)
  case Nil
  then show ?case by simp
next
  case (Cons c cs)
  then show ?case by (cases c rule: log_entries.cases) simp_all
qed

lemma export_entries_asked:
  "map (\<lambda>e. ExportCall m (m_selector e) (m_func e)) (concat (map export_entries cs)) =
   map (asked_call m) (filter is_export cs)"
proof (induction cs)
  case Nil
  then show ?case by simp
next
  case (Cons c cs)
  then show ?case by (cases c rule: export_entries.cases) simp_all
qed

lemma function_entries_asked:
  "map (\<lambda>fn. LoadCall fn m) (concat (map function_entries cs)) =
   map (asked_call m) (filter is_load cs)"
proof (induction cs)
  case Nil
  then show ?case by simp
next
  case (Cons c cs)
  then show ?case by (cases c rule: function_entries.cases) simp_all
qed

lemma kinds_partition:
  "length (filter is_hook cs) + length (filter is_log cs) + length (filter is_export cs)
     + length (filter is_load cs) = length cs"
proof (induction cs)
  case Nil
  then show ?case by simp
next
  case (Cons c cs)
  then show ?case by (cases c) simp_all
qed

lemma init_unattached:
  "m_mod this = nullptr \<Longrightarrow>
   init install module (this, t) =
     Some (\<lparr>m_mod = Ptr module, m_scheduledHooks = [], m_scheduledLogs = [],
            m_scheduledExports = [], m_scheduledFunctions = []\<rparr>,
           invokeFunctions module (m_scheduledFunctions this)
             (replayExports module (m_scheduledExports this)
               (replayLogs module (m_scheduledLogs this)
                 (replayHooks install module (m_scheduledHooks this) t))))"
  by (cases this) simp

lemma init_after_calls:
  "init install module (do_calls install policy cs (Interface_default, t)) =
     Some (\<lparr>m_mod = Ptr module, m_scheduledHooks = [], m_scheduledLogs = [],
            m_scheduledExports = [], m_scheduledFunctions = []\<rparr>,
           t @ map (asked_call module) (filter is_hook cs)
             @ map (asked_call module) (filter is_log cs)
             @ map (asked_call module) (filter is_export cs)
             @ map (asked_call module) (filter is_load cs))"
proof -
  have u: "m_mod Interface_default = nullptr"
    by (simp add: Interface_default_def)
  have "init install module (buffer_calls cs Interface_default, t) =
     Some (\<lparr>m_mod = Ptr module, m_scheduledHooks = [], m_scheduledLogs = [],
            m_scheduledExports = [], m_scheduledFunctions = []\<rparr>,
           t @ map (asked_call module) (filter is_hook cs)
             @ map (asked_call module) (filter is_log cs)
             @ map (asked_call module) (filter is_export cs)
             @ map (asked_call module) (filter is_load cs))"
    by (simp add: replayHooks_calls replayLogs_calls replayExports_calls invokeFunctions_calls
          buffer_calls_def Interface_default_def
          hook_entries_asked log_entries_asked export_entries_asked function_entries_asked)
  then show ?thesis
    by (simp add: do_calls_unattached [OF u])
qed

section \<open>Lemmas on the process-wide instance\<close>

lemma Interface_get_first:
  "ret p = None \<Longrightarrow>
   Interface_get p =
     (Ptr (length (objects p)),
      p\<lparr>objects := objects p @ [Interface_default], ret := Some (Ptr (length (objects p)))\<rparr>)"
  by (simp add: Interface_get_def create_def)

lemma Interface_get_later: "ret q = Some r \<Longrightarrow> Interface_get q = (r, q)"
  by (simp add: Interface_get_def)

lemma get_times_later: "ret q = Some r \<Longrightarrow> get_times n q = (replicate n r, q)"
  by (induction n) (simp_all add: Interface_get_later)

section \<open>Properties of addHook\<close>

text \<open>
  C2. While no Mod is attached, \<open>addHook<Detour, Convention>(displayName, address)\<close>
  appends exactly one ScheduledHook, holding the display name, the address and the member
  pointer \<open>&Mod::addHook<Detour, Convention>\<close>, at the end of the hook buffer, changes
  nothing else, calls nothing on any Mod, and returns a successful Result whose payload is
  the null Hook pointer.
\<close>

theorem addHook_unattached:
  assumes "m_mod this = nullptr"
  shows "addHook install detour convention displayName addr (this, t) =
           (Ok nullptr,
            (this\<lparr>m_scheduledHooks := m_scheduledHooks this @
                [\<lparr>m_displayName = displayName, m_address = addr,
                  m_addFunction = Mod_addHook_ptr detour convention\<rparr>]\<rparr>,
             t))"
  using assms by simp

theorem addHook_unattached_witness:
  "m_mod Interface_default = nullptr \<and>
   addHook install_refused 7 1 ''menu'' 256 (Interface_default, []) =
     (Ok nullptr,
      (\<lparr>m_mod = nullptr,
        m_scheduledHooks =
          [\<lparr>m_displayName = ''menu'', m_address = 256, m_addFunction = Mod_addHook_ptr 7 1\<rparr>],
        m_scheduledLogs = [], m_scheduledExports = [], m_scheduledFunctions = []\<rparr>,
       []))"
  using addHook_unattached [of Interface_default install_refused 7 1 "''menu''" 256 "[]"]
  by (simp add: Interface_default_def)

text \<open>
  C3. While a Mod is attached, \<open>addHook<Detour, Convention>(displayName, address)\<close>
  buffers nothing: it makes exactly one call, the Mod's own
  \<open>addHook<Detour, Convention>(displayName, address)\<close>, returns exactly the Result of
  that call, and leaves the Interface, with all four buffers, as it was.
\<close>

theorem addHook_attached:
  assumes "m_mod this = Ptr m"
  shows "addHook install detour convention displayName addr (this, t) =
           (fst (Mod_addHook install m detour convention displayName addr t),
            (this, snd (Mod_addHook install m detour convention displayName addr t)))
         \<and> snd (Mod_addHook install m detour convention displayName addr t) =
             t @ [AddHookCall m detour convention displayName addr]"
  using assms by (simp add: Mod_addHook_def)

theorem addHook_attached_witness:
  "m_mod (Interface_default\<lparr>m_mod := Ptr 3\<rparr>) = Ptr 3 \<and>
   addHook install_refused 7 1 ''menu'' 256 (Interface_default\<lparr>m_mod := Ptr 3\<rparr>, []) =
     (Err ''already hooked'',
      (Interface_default\<lparr>m_mod := Ptr 3\<rparr>, [AddHookCall 3 7 1 ''menu'' 256]))"
  using addHook_attached [of "Interface_default\<lparr>m_mod := Ptr 3\<rparr>" 3
      install_refused 7 1 "''menu''" 256 "[]"]
  by (simp add: Mod_addHook_def install_refused_def)

text \<open>
  C8. The overload \<open>addHook<Detour, Convention>(address)\<close> is the two-argument overload
  with the empty string as display name: on every state it returns the same Result and
  leaves the same state as \<open>addHook<Detour, Convention>("", address)\<close>.
\<close>

theorem addHook_address_defaults_name:
  "addHook_address install detour convention addr s =
     addHook install detour convention [] addr s"
  by (simp add: addHook_address_def)

section \<open>Properties of exportAPIFunction\<close>

text \<open>
  C7. \<open>exportAPIFunction(selector, ptr)\<close> erases a member-function pointer to the
  \<open>unknownmemfn_t\<close> alternative and a free-function pointer to the \<open>unknownfn_t\<close>
  alternative, keeping its value; with a Mod attached it forwards (selector, erased
  function) to that Mod at once and leaves the buffers alone, without a Mod it appends one
  ScheduledExport holding the selector and the erased function and calls nothing.
\<close>

theorem exportAPIFunction_dispatch:
  "exportAPIFunction selector p (this, t) =
     (case m_mod this of
        Ptr m \<Rightarrow>
          (this, t @ [ExportCall m selector
             (case p of MemberFunctionPointer v \<Rightarrow> unknownmemfn v
                      | FunctionPointer v \<Rightarrow> unknownfn v)])
      | nullptr \<Rightarrow>
          (this\<lparr>m_scheduledExports := m_scheduledExports this @
              [\<lparr>m_selector = selector,
                m_func = (case p of MemberFunctionPointer v \<Rightarrow> unknownmemfn v
                                  | FunctionPointer v \<Rightarrow> unknownfn v)\<rparr>]\<rparr>, t))"
  by (cases p) (simp_all add: exportAPIFunction_def split: ptr.splits)

section \<open>Properties of the flush\<close>

text \<open>
  C1. Take a freshly constructed Interface and any sequence \<open>cs\<close> of scheduling calls
  (addHook in either overload, logInfo, exportAPIFunction, scheduleOnLoad) made on it
  while no Mod is attached. Then \<open>init(module)\<close> succeeds, and the calls the Mod
  receives are, after whatever it had received before (nothing is added by the scheduling
  calls themselves): the install of every scheduled hook with its (displayName, address),
  then every scheduled log with its (message, severity), then every scheduled export with
  its (selector, function), then every load callback with \<open>module\<close>; inside each group
  the calls stand in the order of \<open>cs\<close>; there are exactly as many of them as \<open>cs\<close> has
  calls; and afterwards the Interface holds \<open>module\<close> and four empty buffers.
\<close>

theorem init_replays_in_order:
  "init install module (do_calls install policy cs (Interface_default, t)) =
     Some (\<lparr>m_mod = Ptr module, m_scheduledHooks = [], m_scheduledLogs = [],
            m_scheduledExports = [], m_scheduledFunctions = []\<rparr>,
           t @ map (asked_call module) (filter is_hook cs)
             @ map (asked_call module) (filter is_log cs)
             @ map (asked_call module) (filter is_export cs)
             @ map (asked_call module) (filter is_load cs))
   \<and> length (map (asked_call module) (filter is_hook cs)
             @ map (asked_call module) (filter is_log cs)
             @ map (asked_call module) (filter is_export cs)
             @ map (asked_call module) (filter is_load cs)) = length cs"
  using kinds_partition [of cs] by (simp add: init_after_calls)

text \<open>
  C4. On an Interface without a Mod, any sequence of scheduling calls only appends: each
  buffer afterwards starts with what it held before, and no Mod has become attached. The
  flush of \<open>init(module)\<close> then leaves all four buffers empty with \<open>module\<close> attached.
  From there on, with scheduleOnLoad invoking at once on an attached Interface (the
  semantics the spec recommends, and the only one under which a callback scheduled then
  can still run once: there is no later attach to run it), any sequence of scheduling
  calls leaves the Interface exactly so: all four buffers stay empty and the Mod stays
  attached.
\<close>

theorem buffers_append_then_stay_empty:
  assumes "m_mod this = nullptr"
  shows "prefix (m_scheduledHooks this)
            (m_scheduledHooks (fst (do_calls install policy cs (this, t))))
       \<and> prefix (m_scheduledLogs this)
            (m_scheduledLogs (fst (do_calls install policy cs (this, t))))
       \<and> prefix (m_scheduledExports this)
            (m_scheduledExports (fst (do_calls install policy cs (this, t))))
       \<and> prefix (m_scheduledFunctions this)
            (m_scheduledFunctions (fst (do_calls install policy cs (this, t))))
       \<and> m_mod (fst (do_calls install policy cs (this, t))) = nullptr
       \<and> map_option fst (init install module (do_calls install policy cs (this, t))) =
            Some \<lparr>m_mod = Ptr module, m_scheduledHooks = [], m_scheduledLogs = [],
                  m_scheduledExports = [], m_scheduledFunctions = []\<rparr>
       \<and> fst (do_calls install InvokeIfAttached cs'
              (\<lparr>m_mod = Ptr module, m_scheduledHooks = [], m_scheduledLogs = [],
                m_scheduledExports = [], m_scheduledFunctions = []\<rparr>, t')) =
            \<lparr>m_mod = Ptr module, m_scheduledHooks = [], m_scheduledLogs = [],
              m_scheduledExports = [], m_scheduledFunctions = []\<rparr>"
proof -
  have after: "do_calls install policy cs (this, t) = (buffer_calls cs this, t)"
    using assms by (rule do_calls_unattached)
  have grow: "prefix (m_scheduledHooks this) (m_scheduledHooks (buffer_calls cs this))"
    "prefix (m_scheduledLogs this) (m_scheduledLogs (buffer_calls cs this))"
    "prefix (m_scheduledExports this) (m_scheduledExports (buffer_calls cs this))"
    "prefix (m_scheduledFunctions this) (m_scheduledFunctions (buffer_calls cs this))"
    by (simp_all add: buffer_calls_def)
  have still: "m_mod (buffer_calls cs this) = nullptr"
    using assms by simp
  have flush: "map_option fst (init install module (buffer_calls cs this, t)) =
      Some \<lparr>m_mod = Ptr module, m_scheduledHooks = [], m_scheduledLogs = [],
            m_scheduledExports = [], m_scheduledFunctions = []\<rparr>"
    by (simp del: init.simps add: init_unattached [OF still])
  have "m_mod \<lparr>m_mod = Ptr module, m_scheduledHooks = [], m_scheduledLogs = [],
                m_scheduledExports = [], m_scheduledFunctions = []\<rparr> = Ptr module"
    by simp
  from do_calls_attached [OF this, of install InvokeIfAttached cs' t']
  have stay: "fst (do_calls install InvokeIfAttached cs'
              (\<lparr>m_mod = Ptr module, m_scheduledHooks = [], m_scheduledLogs = [],
                m_scheduledExports = [], m_scheduledFunctions = []\<rparr>, t')) =
            \<lparr>m_mod = Ptr module, m_scheduledHooks = [], m_scheduledLogs = [],
              m_scheduledExports = [], m_scheduledFunctions = []\<rparr>"
    by simp
  from grow still flush stay show ?thesis
    by (simp add: after)
qed

theorem buffers_append_then_stay_empty_witness:
  "m_mod Interface_default = nullptr
   \<and> do_calls install_refused InvokeIfAttached
        [AddHook 7 1 ''menu'' 256, LogInfo ''boot'' 1] (Interface_default, []) =
       (\<lparr>m_mod = nullptr,
         m_scheduledHooks =
           [\<lparr>m_displayName = ''menu'', m_address = 256, m_addFunction = Mod_addHook_ptr 7 1\<rparr>],
         m_scheduledLogs = [\<lparr>m_info = ''boot'', m_severity = 1\<rparr>],
         m_scheduledExports = [], m_scheduledFunctions = []\<rparr>, [])
   \<and> map_option fst (init install_refused 3
         (do_calls install_refused InvokeIfAttached
            [AddHook 7 1 ''menu'' 256, LogInfo ''boot'' 1] (Interface_default, []))) =
       Some \<lparr>m_mod = Ptr 3, m_scheduledHooks = [], m_scheduledLogs = [],
             m_scheduledExports = [], m_scheduledFunctions = []\<rparr>
   \<and> fst (do_calls install_refused InvokeIfAttached
         [ScheduleOnLoad 5, AddHook 8 1 ''late'' 512, LogInfo ''up'' 2,
          ExportAPIFunction ''getVersion'' (FunctionPointer 77)]
         (\<lparr>m_mod = Ptr 3, m_scheduledHooks = [], m_scheduledLogs = [],
           m_scheduledExports = [], m_scheduledFunctions = []\<rparr>, [])) =
       \<lparr>m_mod = Ptr 3, m_scheduledHooks = [], m_scheduledLogs = [],
         m_scheduledExports = [], m_scheduledFunctions = []\<rparr>"
proof -
  have h: "m_mod Interface_default = nullptr"
    by (simp add: Interface_default_def)
  have c: "do_calls install_refused InvokeIfAttached
      [AddHook 7 1 ''menu'' 256, LogInfo ''boot'' 1] (Interface_default, []) =
       (\<lparr>m_mod = nullptr,
         m_scheduledHooks =
           [\<lparr>m_displayName = ''menu'', m_address = 256, m_addFunction = Mod_addHook_ptr 7 1\<rparr>],
         m_scheduledLogs = [\<lparr>m_info = ''boot'', m_severity = 1\<rparr>],
         m_scheduledExports = [], m_scheduledFunctions = []\<rparr>, [])"
    by (simp add: do_call_def Interface_default_def)
  from h c
    buffers_append_then_stay_empty [OF h, of install_refused InvokeIfAttached
      "[AddHook 7 1 ''menu'' 256, LogInfo ''boot'' 1]" "[]" 3
      "[ScheduleOnLoad 5, AddHook 8 1 ''late'' 512, LogInfo ''up'' 2,
        ExportAPIFunction ''getVersion'' (FunctionPointer 77)]" "[]"]
  show ?thesis by simp
qed

text \<open>
  C5. A scheduling call hands back an error in one case only: it is an addHook call, a Mod
  is attached, and the error is the Result of that Mod's own install operation. Without a
  Mod, addHook hands back \<open>Ok\<close> with the null Hook pointer whatever its arguments, and
  logInfo, exportAPIFunction and scheduleOnLoad, which return \<open>void\<close>, hand back no
  Result at all, with or without a Mod.
\<close>

theorem scheduling_cannot_fail:
  "(m_mod this = nullptr \<longrightarrow>
      fst (call_result install policy c (this, t)) =
        (if is_hook c then Some (Ok nullptr) else None))
   \<and> (\<not> is_hook c \<longrightarrow> fst (call_result install policy c (this, t)) = None)
   \<and> (fst (call_result install policy c (this, t)) = Some (Err e) \<longrightarrow>
        (\<exists>m detour convention displayName addr.
            m_mod this = Ptr m
          \<and> asked_call m c = AddHookCall m detour convention displayName addr
          \<and> fst (Mod_addHook install m detour convention displayName addr t) = Err e))"
  by (cases c) (auto simp add: addHook_address_def Mod_addHook_def split: ptr.splits)

theorem scheduling_cannot_fail_witness:
  "m_mod Interface_default = nullptr
   \<and> fst (call_result install_refused InvokeIfAttached (AddHook 7 1 ''menu'' 256)
        (Interface_default, [])) = Some (Ok nullptr)
   \<and> \<not> is_hook (LogInfo ''boot'' 1)
   \<and> fst (call_result install_refused InvokeIfAttached (LogInfo ''boot'' 1)
        (Interface_default\<lparr>m_mod := Ptr 3\<rparr>, [])) = None
   \<and> fst (call_result install_refused InvokeIfAttached (AddHook 7 1 ''menu'' 256)
        (Interface_default\<lparr>m_mod := Ptr 3\<rparr>, [])) = Some (Err ''already hooked'')
   \<and> fst (Mod_addHook install_refused 3 7 1 ''menu'' 256 []) = Err ''already hooked''"
  using scheduling_cannot_fail [of Interface_default install_refused InvokeIfAttached
      "AddHook 7 1 ''menu'' 256" "[]" "''already hooked''"]
    scheduling_cannot_fail [of "Interface_default\<lparr>m_mod := Ptr 3\<rparr>" install_refused
      InvokeIfAttached "LogInfo ''boot'' 1" "[]" "''already hooked''"]
    scheduling_cannot_fail [of "Interface_default\<lparr>m_mod := Ptr 3\<rparr>" install_refused
      InvokeIfAttached "AddHook 7 1 ''menu'' 256" "[]" "''already hooked''"]
  by (simp add: Interface_default_def Mod_addHook_def install_refused_def)

section \<open>Properties of the process-wide instance\<close>

text \<open>
  C6. In a process where \<open>Interface::get()\<close> has not run yet, the first call constructs
  one Interface (a default one, with no Mod) and returns the pointer to it, which is not
  null; any number of calls after it return that same pointer and construct nothing; and
  in any later state of the process, whatever has been done to the objects meanwhile, the
  call still returns that pointer and changes nothing.
\<close>

theorem get_constructs_once:
  assumes "ret p = None"
  shows "fst (Interface_get p) = Ptr (length (objects p))
       \<and> fst (Interface_get p) \<noteq> nullptr
       \<and> objects (snd (Interface_get p)) = objects p @ [Interface_default]
       \<and> deref (snd (Interface_get p)) (fst (Interface_get p)) = Inr Interface_default
       \<and> get_times n (snd (Interface_get p)) =
            (replicate n (fst (Interface_get p)), snd (Interface_get p))
       \<and> (ret q = ret (snd (Interface_get p)) \<longrightarrow> Interface_get q = (fst (Interface_get p), q))"
  using assms
  by (simp add: Interface_get_first get_times_later Interface_get_later)

theorem get_constructs_once_witness:
  "ret \<lparr>ret = None, objects = []\<rparr> = None
   \<and> Interface_get \<lparr>ret = None, objects = []\<rparr> =
       (Ptr 0, \<lparr>ret = Some (Ptr 0), objects = [Interface_default]\<rparr>)
   \<and> get_times 3 \<lparr>ret = Some (Ptr 0), objects = [Interface_default]\<rparr> =
       ([Ptr 0, Ptr 0, Ptr 0], \<lparr>ret = Some (Ptr 0), objects = [Interface_default]\<rparr>)
   \<and> ret \<lparr>ret = Some (Ptr 0), objects = [Interface_default\<lparr>m_mod := Ptr 3\<rparr>]\<rparr> =
       ret (snd (Interface_get \<lparr>ret = None, objects = []\<rparr>))
   \<and> Interface_get \<lparr>ret = Some (Ptr 0), objects = [Interface_default\<lparr>m_mod := Ptr 3\<rparr>]\<rparr> =
       (Ptr 0, \<lparr>ret = Some (Ptr 0), objects = [Interface_default\<lparr>m_mod := Ptr 3\<rparr>]\<rparr>)"
proof -
  have h: "ret \<lparr>ret = None, objects = []\<rparr> = None"
    by simp
  have g: "Interface_get \<lparr>ret = None, objects = []\<rparr> =
       (Ptr 0, \<lparr>ret = Some (Ptr 0), objects = [Interface_default]\<rparr>)"
    by (simp add: Interface_get_def create_def)
  from h g
    get_constructs_once [OF h, of 3
      "\<lparr>ret = Some (Ptr 0), objects = [Interface_default\<lparr>m_mod := Ptr 3\<rparr>]\<rparr>"]
  show ?thesis by (simp add: numeral_3_eq_3)
qed

text \<open>
  C10. A default-constructed Interface has a null Mod pointer, and addHook never changes
  the pointer. So in a process where the instance has not been created yet,
  \<open>Interface::mod()\<close> and \<open>Mod::get<void>()\<close> return nullptr, and \<open>Interface::log()\<close> and
  \<open>Log::get()\<close> end in a null dereference. In general the first two return the instance's
  Mod pointer as it is, and the last two return the Log of the attached Mod when that
  pointer is not null and end in a null dereference when it is null.
\<close>

theorem mod_null_before_init:
  "m_mod Interface_default = nullptr
   \<and> m_mod (fst (snd (addHook install detour convention displayName addr (this, t)))) = m_mod this
   \<and> (ret p = None \<longrightarrow>
        fst (Interface_mod p) = Inr nullptr \<and> fst (Mod_get p) = Inr nullptr
      \<and> fst (Interface_log p) = Inl NullDereference \<and> fst (Log_get p) = Inl NullDereference)
   \<and> (ret p = Some (Ptr k) \<and> k < length (objects p) \<longrightarrow>
        fst (Interface_mod p) = Inr (m_mod (objects p ! k))
      \<and> fst (Mod_get p) = Inr (m_mod (objects p ! k))
      \<and> fst (Interface_log p) =
          (case m_mod (objects p ! k) of
             nullptr \<Rightarrow> Inl NullDereference | Ptr m \<Rightarrow> Inr (Log_of m))
      \<and> fst (Log_get p) =
          (case m_mod (objects p ! k) of
             nullptr \<Rightarrow> Inl NullDereference | Ptr m \<Rightarrow> Inr (Log_of m)))"
  by (auto simp add: Interface_default_def Interface_mod_def Mod_get_def Interface_log_def
        Log_get_def Interface_get_def create_def Mod_addHook_def split: ptr.splits prod.splits)

theorem mod_null_before_init_witness:
  "ret \<lparr>ret = None, objects = []\<rparr> = None
   \<and> fst (Interface_mod \<lparr>ret = None, objects = []\<rparr>) = Inr nullptr
   \<and> fst (Mod_get \<lparr>ret = None, objects = []\<rparr>) = Inr nullptr
   \<and> fst (Interface_log \<lparr>ret = None, objects = []\<rparr>) = Inl NullDereference
   \<and> fst (Log_get \<lparr>ret = None, objects = []\<rparr>) = Inl NullDereference
   \<and> ret \<lparr>ret = Some (Ptr 0), objects = [Interface_default\<lparr>m_mod := Ptr 3\<rparr>]\<rparr> = Some (Ptr 0)
   \<and> (0::nat) < length (objects \<lparr>ret = Some (Ptr 0), objects = [Interface_default\<lparr>m_mod := Ptr 3\<rparr>]\<rparr>)
   \<and> fst (Interface_mod \<lparr>ret = Some (Ptr 0), objects = [Interface_default\<lparr>m_mod := Ptr 3\<rparr>]\<rparr>) =
        Inr (Ptr 3)
   \<and> fst (Interface_log \<lparr>ret = Some (Ptr 0), objects = [Interface_default\<lparr>m_mod := Ptr 3\<rparr>]\<rparr>) =
        Inr (Log_of 3)
   \<and> fst (Log_get \<lparr>ret = Some (Ptr 0), objects = [Interface_default\<lparr>m_mod := Ptr 3\<rparr>]\<rparr>) =
        Inr (Log_of 3)"
  using mod_null_before_init [of install_refused 7 1 "''menu''" 256 Interface_default "[]"
      "\<lparr>ret = None, objects = []\<rparr>" 0]
    mod_null_before_init [of install_refused 7 1 "''menu''" 256 Interface_default "[]"
      "\<lparr>ret = Some (Ptr 0), objects = [Interface_default\<lparr>m_mod := Ptr 3\<rparr>]\<rparr>" 0]
  by simp

end
